theory Spec2Isabelle
  imports Main "HOL-Library.Word"
begin

unbundle bit_operations_syntax

section \<open>The two authorization guards\<close>

text \<open>
  The repository holds two guard classes with one method \<open>canActivate\<close> each:
  \<^item> \<open>AuthorizationGuard\<close> (src/authorization.guard.ts), whose definitions carry the
    prefix \<open>AG_\<close> here;
  \<^item> \<open>EnvironmentAndAuthorizationValidatorV1Guard\<close> (src/unnamed/part_000), prefix
    \<open>EG_\<close>.
  A method whose body is \<open>try { ... } catch (error) { this.handleError(error) }\<close> is
  given twice: \<open>f_try\<close> is the body of the \<open>try\<close> block and returns the exception as
  it is raised, \<open>f\<close> is the method, with the \<open>catch\<close> applied.

  Exceptions are values of \<open>exn\<close>, a method returns \<open>exn + 'a\<close> (\<open>Inl\<close> the exception
  thrown or the rejection of the promise) together with the state. The state is the
  list of calls issued to the collaborator services, in the order of issue, and the
  \<open>project\<close> property the guards set on the request. The services themselves are
  parameters (\<open>Deps\<close>): a lookup is a function of its arguments that returns a value or
  throws.

  Logging is left out but for one argument of a log call, which can throw: the debug
  call of the environment guard's \<open>canActivate\<close> (part_000 58-63) serialises the request
  object with \<open>JSON.stringify\<close>, and that throws \<open>TypeError\<close> on an object with a cycle.
  The errors that \<open>handleError\<close> of the environment guard serialises for its log line
  are taken to serialise.
\<close>

subsection \<open>Enumerations and exceptions\<close>

text \<open>
  The enum declarations are not among the source files; each datatype has the members
  the guards name. \<open>OrganizationType_OTHER\<close> and \<open>ProjectType_OTHER\<close> stand for every
  member but \<open>SALESFORCE_ONLY\<close>. The members of the role enums are taken to be truthy
  (string-valued), as the guards index \<open>AuthorizationUserRole\<close> by them.
\<close>

text \<open>
  Modelled from the spec: the members of \<open>OrganizationUserRoles\<close> that the guards do not
  name. The guards name \<open>OWNER\<close> only; the spec gives the roles Owner, Manager and
  Member.
\<close>

datatype OrganizationUserRoles = OWNER | OrganizationUserRoles_MANAGER | OrganizationUserRoles_MEMBER

datatype GuardValidationExceptionTypes = UNAUTHORIZED_EXCEPTION

datatype DeletedStatus = NOT_DELETED | WITH_DELETED | ONLY_DELETED | Unvalidated string
  \<comment> \<open>\<open>Unvalidated\<close>: a value of the query field \<open>deleted-status\<close> that is no member\<close>

datatype FetchDeletedRecordsAccessLevel = ORGANIZATION | PROJECT | ENVIRONMENT

datatype OrganizationType = OrganizationType_SALESFORCE_ONLY | OrganizationType_OTHER

datatype ProjectType = ProjectType_SALESFORCE_ONLY | ProjectType_OTHER

datatype ProjectUserRoles = MANAGER | MEMBER

text \<open>
  \<open>GuardValidationFailedException\<close> carries the argument of its constructor: \<open>None\<close> is
  \<open>new GuardValidationFailedException()\<close>. \<open>TypeError\<close> is what JavaScript throws on
  a property read of \<open>undefined\<close>; \<open>ServiceError\<close> is any other error of a collaborator.
\<close>

datatype exn =
    BadRequestException string
  | UnauthorizedException "string option"
  | GuardValidationFailedException "GuardValidationExceptionTypes option"
  | TypeError
  | ServiceError string

subsection \<open>Data transfer objects, request, handler metadata\<close>

record Organization =
  getType :: OrganizationType

record OrganizationMember =
  getRole :: OrganizationUserRoles
  getOrganization :: Organization

record ProjectDTO =
  project_getType :: ProjectType

record ProjectMember =
  member_getRole :: ProjectUserRoles

record 'a PaginatedData =
  data :: "'a list"
  totalCount :: nat

record OrganizationMemberFiltersDTO =
  om_organizationId :: string
  om_userId :: string
  om_expandOrganization :: bool
  om_deletedStatus :: DeletedStatus

record ProjectMemberFiltersDTO =
  pm_projectId :: string
  pm_userId :: string
  pm_deletedStatus :: DeletedStatus

record EnvironmentExpandFiltersDTO =
  env_deletedStatus :: DeletedStatus

text \<open>
  The request: the three identifier headers (\<open>None\<close> when the header is not sent), the
  query field \<open>deleted-status\<close> (\<open>None\<close> is \<open>undefined\<close>) and the id of the user,
  whom the authentication upstream has set on the request. \<open>cyclic\<close> says whether the
  request object holds a reference cycle, as the request object of the HTTP framework
  does (the request refers to its response, and the response back to the request); an
  object that a test builds by hand need not.
\<close>

record Request =
  headers_organizationId :: "string option"
  headers_projectId :: "string option"
  headers_environmentId :: "string option"
  query_deletedStatus :: "DeletedStatus option"
  user_id :: string
  cyclic :: bool

text \<open>
  The metadata of the handler, as \<open>reflector.get\<close> reads it: \<open>None\<close> is a key that the
  handler does not declare (\<open>undefined\<close>).
\<close>

record Handler =
  FetchDeletedRecords :: "bool option"
  FetchDeletedRecordsLevel :: "FetchDeletedRecordsAccessLevel option"
  DisableFeatureForSalesforceType :: "bool option"
  isProjectValidationOptional :: "bool option"
  accessRole :: "32 word option"
  projectAccessRole :: "ProjectUserRoles option"

subsection \<open>Collaborators and missing declarations\<close>

text \<open>
  The services the guards call, and what the source files leave undeclared:
  \<open>validate\<close> of the package uuid; the table \<open>AuthorizationUserRole\<close> of role bits;
  and whether the class \<open>GuardValidationFailedException\<close> extends
  \<open>UnauthorizedException\<close> (\<open>gvfExtendsUnauthorized\<close>), which decides \<open>instanceof\<close>.
  \<open>findEnvironmentId\<close> returns the message of its result, or \<open>None\<close> for a falsy result.
\<close>

record Deps =
  findAllOrganizationMembers ::
    "OrganizationMemberFiltersDTO \<Rightarrow> exn + OrganizationMember PaginatedData"
  findProjectById :: "string \<Rightarrow> exn + ProjectDTO"
  findAllProjectMembers :: "ProjectMemberFiltersDTO \<Rightarrow> exn + ProjectMember PaginatedData"
  findEnvironmentId :: "string \<Rightarrow> string \<Rightarrow> string \<Rightarrow> exn + string option"
  validate :: "string \<Rightarrow> bool"
  AuthorizationUserRole :: "OrganizationUserRoles \<Rightarrow> 32 word"
  gvfExtendsUnauthorized :: bool

datatype Call =
    OrganizationMemberLookup OrganizationMemberFiltersDTO
  | ProjectLookup string
  | ProjectMemberLookup ProjectMemberFiltersDTO
  | EnvironmentLookup string string string

record State =
  calls :: "Call list"
  request_project :: "ProjectDTO option"

definition issue :: "Call \<Rightarrow> State \<Rightarrow> State" where
  "issue c s = s\<lparr>calls := calls s @ [c]\<rparr>"

text \<open>JavaScript truthiness of an optional flag and of an optional string.\<close>

definition truthy :: "bool option \<Rightarrow> bool" where
  "truthy b = (b = Some True)"

fun present :: "string option \<Rightarrow> bool" where
  "present None = False"
| "present (Some v) = (v \<noteq> [])"

text \<open>
  The string of a header that is present. For an absent header it is the empty string,
  which the guards never read: they test the header first.
\<close>

fun str :: "string option \<Rightarrow> string" where
  "str None = []"
| "str (Some v) = v"

text \<open>\<open>catch (error) { handler(error) }\<close> around a body, for a handler that always throws.\<close>

definition catch :: "(exn \<Rightarrow> exn) \<Rightarrow> (exn + 'a) \<times> State \<Rightarrow> (exn + 'a) \<times> State" where
  "catch handler r = (case fst r of Inl error \<Rightarrow> (Inl (handler error), snd r) | Inr v \<Rightarrow> r)"

subsection \<open>Code the two guards share word for word\<close>

text \<open>
  The deleted-status block of \<open>validateOrganizationMembers\<close> with the filters object it
  fills (authorization.guard.ts 149-166, part_000 220-238).
\<close>

definition organizationMemberFilters ::
  "string \<Rightarrow> string \<Rightarrow> bool option \<Rightarrow> DeletedStatus option \<Rightarrow>
   FetchDeletedRecordsAccessLevel option \<Rightarrow> OrganizationMemberFiltersDTO" where
  "organizationMemberFilters organizationId userId fetchDeletedRecords deletedStatusFromFilter
       fetchDeletedRecordsLevel =
     \<lparr>om_organizationId = organizationId, om_userId = userId, om_expandOrganization = True,
      om_deletedStatus =
        (if fetchDeletedRecordsLevel = Some ORGANIZATION then
           (if truthy fetchDeletedRecords then WITH_DELETED
            else (case deletedStatusFromFilter of Some v \<Rightarrow> v | None \<Rightarrow> NOT_DELETED))
         else NOT_DELETED)\<rparr>"

text \<open>\<open>getProjectMemberFilters\<close> (authorization.guard.ts 297-317, part_000 363-383).\<close>

definition getProjectMemberFilters ::
  "string \<Rightarrow> string \<Rightarrow> FetchDeletedRecordsAccessLevel option \<Rightarrow> bool option \<Rightarrow>
   DeletedStatus option \<Rightarrow> ProjectMemberFiltersDTO" where
  "getProjectMemberFilters projectId userId fetchDeletedRecordsLevel fetchDeletedRecords
       deletedStatusFromFilter =
     \<lparr>pm_projectId = projectId, pm_userId = userId,
      pm_deletedStatus =
        (if fetchDeletedRecordsLevel = Some PROJECT then
           (if truthy fetchDeletedRecords then ONLY_DELETED
            else (case deletedStatusFromFilter of Some v \<Rightarrow> v | None \<Rightarrow> NOT_DELETED))
         else NOT_DELETED)\<rparr>"

text \<open>\<open>getProjectById\<close>: whatever the lookup throws becomes a \<open>BadRequestException\<close>.\<close>

definition getProjectById :: "Deps \<Rightarrow> string \<Rightarrow> State \<Rightarrow> (exn + ProjectDTO) \<times> State" where
  "getProjectById d projectId s =
     (case findProjectById d projectId of
        Inl err \<Rightarrow>
          (Inl (BadRequestException (''Not able to find project (id)=('' @ projectId @ '')'')),
           issue (ProjectLookup projectId) s)
      | Inr project \<Rightarrow> (Inr project, issue (ProjectLookup projectId) s))"

text \<open>The roles that satisfy a required project role (the array \<open>projectUserRoles\<close>).\<close>

definition projectUserRoles :: "ProjectUserRoles \<Rightarrow> ProjectUserRoles list" where
  "projectUserRoles required =
     (if required = MEMBER then [MANAGER, MEMBER] else [MANAGER])"

text \<open>The messages of the exceptions.\<close>

definition msgNotInOrganization :: "string \<Rightarrow> string \<Rightarrow> string" where
  "msgNotInOrganization userId organizationId =
     ''The user with (id)=('' @ userId @ '') is not a part of the organization (id)=(''
       @ organizationId @ '')''"

definition msgFeature :: "string \<Rightarrow> string" where
  "msgFeature userId = ''The user (id)=('' @ userId @ '') is unauthorized to view this feature''"

definition msgNotInProject :: "string \<Rightarrow> string \<Rightarrow> string" where
  "msgNotInProject userId projectId =
     ''The user (id)=('' @ userId @ '') is not a part of the project (id)=('' @ projectId @ '')''"

subsection \<open>EnvironmentAndAuthorizationValidatorV1Guard\<close>

fun instanceofUnauthorizedException :: "Deps \<Rightarrow> exn \<Rightarrow> bool" where
  "instanceofUnauthorizedException d (UnauthorizedException m) = True"
| "instanceofUnauthorizedException d (GuardValidationFailedException t) = gvfExtendsUnauthorized d"
| "instanceofUnauthorizedException d (BadRequestException m) = False"
| "instanceofUnauthorizedException d TypeError = False"
| "instanceofUnauthorizedException d (ServiceError m) = False"

text \<open>\<open>handleError\<close> always throws; the value is the exception it throws.\<close>

definition EG_handleError :: "Deps \<Rightarrow> exn \<Rightarrow> exn" where
  "EG_handleError d error =
     (if instanceofUnauthorizedException d error
      then GuardValidationFailedException (Some UNAUTHORIZED_EXCEPTION)
      else GuardValidationFailedException None)"

definition EG_validateOrganizationId_try :: "Deps \<Rightarrow> string option \<Rightarrow> exn + unit" where
  "EG_validateOrganizationId_try d organizationId =
     (if \<not> present organizationId \<or> \<not> validate d (str organizationId)
      then Inl (BadRequestException ''Invalid Organization id'')
      else Inr ())"

definition EG_validateOrganizationId :: "Deps \<Rightarrow> string option \<Rightarrow> exn + unit" where
  "EG_validateOrganizationId d organizationId =
     (case EG_validateOrganizationId_try d organizationId of
        Inl error \<Rightarrow> Inl (EG_handleError d error)
      | Inr u \<Rightarrow> Inr u)"

text \<open>
  \<open>validateEnvironmentId\<close>. The source returns nothing; the value here is the local
  object \<open>environmentFilters\<close> as the body leaves it.
\<close>

definition EG_validateEnvironmentId_try ::
  "Deps \<Rightarrow> string option \<Rightarrow> string \<Rightarrow> string \<Rightarrow> bool option \<Rightarrow> DeletedStatus option \<Rightarrow>
   FetchDeletedRecordsAccessLevel option \<Rightarrow> State \<Rightarrow>
   (exn + EnvironmentExpandFiltersDTO) \<times> State" where
  "EG_validateEnvironmentId_try d environmentId projectId organizationId fetchDeletedRecords
       deletedStatusFromFilter fetchDeletedRecordsLevel s =
     (if \<not> present environmentId \<or> \<not> validate d (str environmentId)
      then (Inl (BadRequestException ''Invalid Environment id''), s)
      else
        ((case findEnvironmentId d (str environmentId) projectId organizationId of
            Inl error \<Rightarrow> Inl error
          | Inr None \<Rightarrow> Inl (UnauthorizedException None)
          | Inr (Some message) \<Rightarrow>
              Inr \<lparr>env_deletedStatus =
                (if fetchDeletedRecordsLevel = Some ENVIRONMENT then
                   (if truthy fetchDeletedRecords then WITH_DELETED
                    else (case deletedStatusFromFilter of Some v \<Rightarrow> v | None \<Rightarrow> NOT_DELETED))
                 else NOT_DELETED)\<rparr>),
         issue (EnvironmentLookup (str environmentId) projectId organizationId) s))"

definition EG_validateEnvironmentId ::
  "Deps \<Rightarrow> string option \<Rightarrow> string \<Rightarrow> string \<Rightarrow> bool option \<Rightarrow> DeletedStatus option \<Rightarrow>
   FetchDeletedRecordsAccessLevel option \<Rightarrow> State \<Rightarrow>
   (exn + EnvironmentExpandFiltersDTO) \<times> State" where
  "EG_validateEnvironmentId d environmentId projectId organizationId fetchDeletedRecords
       deletedStatusFromFilter fetchDeletedRecordsLevel s =
     catch (EG_handleError d)
       (EG_validateEnvironmentId_try d environmentId projectId organizationId
          fetchDeletedRecords deletedStatusFromFilter fetchDeletedRecordsLevel s)"

definition EG_validateOrganizationMembers_try ::
  "Deps \<Rightarrow> string \<Rightarrow> string \<Rightarrow> bool option \<Rightarrow> DeletedStatus option \<Rightarrow>
   FetchDeletedRecordsAccessLevel option \<Rightarrow> bool option \<Rightarrow> State \<Rightarrow>
   (exn + OrganizationMember PaginatedData) \<times> State" where
  "EG_validateOrganizationMembers_try d organizationId userId fetchDeletedRecords
       deletedStatusFromFilter fetchDeletedRecordsLevel disableFeatureForSalesforceType s =
     (case findAllOrganizationMembers d
             (organizationMemberFilters organizationId userId fetchDeletedRecords
                deletedStatusFromFilter fetchDeletedRecordsLevel) of
        Inl error \<Rightarrow>
          (Inl error,
           issue (OrganizationMemberLookup
                    (organizationMemberFilters organizationId userId fetchDeletedRecords
                       deletedStatusFromFilter fetchDeletedRecordsLevel)) s)
      | Inr organizationMembers \<Rightarrow>
          (if totalCount organizationMembers = 1 then
             (case data organizationMembers of
                [] \<Rightarrow> Inl TypeError
              | m # ms \<Rightarrow>
                  if getType (getOrganization m) = OrganizationType_SALESFORCE_ONLY
                     \<and> truthy disableFeatureForSalesforceType
                  then Inl (UnauthorizedException (Some (msgFeature userId)))
                  else Inr organizationMembers)
           else Inl (BadRequestException (msgNotInOrganization userId organizationId)),
           issue (OrganizationMemberLookup
                    (organizationMemberFilters organizationId userId fetchDeletedRecords
                       deletedStatusFromFilter fetchDeletedRecordsLevel)) s))"

definition EG_validateOrganizationMembers ::
  "Deps \<Rightarrow> string \<Rightarrow> string \<Rightarrow> bool option \<Rightarrow> DeletedStatus option \<Rightarrow>
   FetchDeletedRecordsAccessLevel option \<Rightarrow> bool option \<Rightarrow> State \<Rightarrow>
   (exn + OrganizationMember PaginatedData) \<times> State" where
  "EG_validateOrganizationMembers d organizationId userId fetchDeletedRecords
       deletedStatusFromFilter fetchDeletedRecordsLevel disableFeatureForSalesforceType s =
     catch (EG_handleError d)
       (EG_validateOrganizationMembers_try d organizationId userId fetchDeletedRecords
          deletedStatusFromFilter fetchDeletedRecordsLevel disableFeatureForSalesforceType s)"

text \<open>The project-role block of \<open>validateProject\<close> (part_000 313-339).\<close>

definition EG_projectRoleCheck ::
  "ProjectUserRoles option \<Rightarrow> OrganizationMember PaginatedData \<Rightarrow>
   ProjectMember PaginatedData \<Rightarrow> string \<Rightarrow> string \<Rightarrow> exn + unit" where
  "EG_projectRoleCheck declared organizationMembers projectMember userId projectId =
     (case declared of
        None \<Rightarrow> Inr ()
      | Some required \<Rightarrow>
          (case data organizationMembers of
             [] \<Rightarrow> Inl TypeError
           | m # ms \<Rightarrow>
               if getRole m \<noteq> OWNER then
                 (if totalCount projectMember > 0 then
                    (case data projectMember of
                       [] \<Rightarrow> Inl TypeError
                     | pm # pms \<Rightarrow>
                         if member_getRole pm \<in> set (projectUserRoles required)
                         then Inr ()
                         else Inl (UnauthorizedException None))
                  else Inl (UnauthorizedException (Some (msgNotInProject userId projectId))))
               else Inr ()))"

definition EG_validateProject_try ::
  "Deps \<Rightarrow> Handler \<Rightarrow> string \<Rightarrow> string \<Rightarrow> OrganizationMember PaginatedData \<Rightarrow>
   FetchDeletedRecordsAccessLevel option \<Rightarrow> DeletedStatus option \<Rightarrow> bool option \<Rightarrow> State \<Rightarrow>
   (exn + unit) \<times> State" where
  "EG_validateProject_try d h projectId userId organizationMembers fetchDeletedRecordsLevel
       deletedStatusFromFilter disableFeatureForSalesforceType s =
     (case getProjectById d projectId s of
        (Inl error, s1) \<Rightarrow> (Inl error, s1)
      | (Inr project, s1) \<Rightarrow>
          (case findAllProjectMembers d
                  (getProjectMemberFilters projectId userId fetchDeletedRecordsLevel
                     (FetchDeletedRecords h) deletedStatusFromFilter) of
             Inl error \<Rightarrow>
               (Inl error,
                issue (ProjectMemberLookup
                         (getProjectMemberFilters projectId userId fetchDeletedRecordsLevel
                            (FetchDeletedRecords h) deletedStatusFromFilter))
                  (s1\<lparr>request_project := Some project\<rparr>))
           | Inr projectMember \<Rightarrow>
               (if totalCount projectMember = 1
                   \<and> project_getType project = ProjectType_SALESFORCE_ONLY
                   \<and> truthy disableFeatureForSalesforceType
                then Inl (UnauthorizedException (Some (msgFeature userId)))
                else EG_projectRoleCheck (projectAccessRole h) organizationMembers
                       projectMember userId projectId,
                issue (ProjectMemberLookup
                         (getProjectMemberFilters projectId userId fetchDeletedRecordsLevel
                            (FetchDeletedRecords h) deletedStatusFromFilter))
                  (s1\<lparr>request_project := Some project\<rparr>))))"

definition EG_validateProject ::
  "Deps \<Rightarrow> Handler \<Rightarrow> string \<Rightarrow> string \<Rightarrow> OrganizationMember PaginatedData \<Rightarrow>
   FetchDeletedRecordsAccessLevel option \<Rightarrow> DeletedStatus option \<Rightarrow> bool option \<Rightarrow> State \<Rightarrow>
   (exn + unit) \<times> State" where
  "EG_validateProject d h projectId userId organizationMembers fetchDeletedRecordsLevel
       deletedStatusFromFilter disableFeatureForSalesforceType s =
     catch (EG_handleError d)
       (EG_validateProject_try d h projectId userId organizationMembers
          fetchDeletedRecordsLevel deletedStatusFromFilter disableFeatureForSalesforceType s)"

text \<open>
  \<open>canActivate\<close>. The first statement of the body that can throw is the debug call at
  part_000 58-63: its argument holds \<open>JSON.stringify(request)\<close>, which throws
  \<open>TypeError\<close> when the request object is cyclic, before any identifier is checked.
  The call of \<open>validateEnvironmentId\<close> (part_000 102) is not awaited:
  the method is \<open>async\<close>, so it issues its lookup and hands back a promise, and
  \<open>canActivate\<close> goes on whatever that promise settles to. The model keeps the state
  the call leaves and drops its outcome; what the runtime does with a rejected promise
  that nothing handles is outside the model. Past \<open>validateOrganizationId\<close> the
  organization header is a string.
\<close>

definition EG_canActivate_try :: "Deps \<Rightarrow> Handler \<Rightarrow> Request \<Rightarrow> State \<Rightarrow> (exn + bool) \<times> State" where
  "EG_canActivate_try d h request s =
     (if cyclic request then (Inl TypeError, s)
      else case EG_validateOrganizationId d (headers_organizationId request) of
        Inl error \<Rightarrow> (Inl error, s)
      | Inr u \<Rightarrow>
          if present (headers_projectId request)
             \<and> \<not> validate d (str (headers_projectId request))
          then (Inl (BadRequestException ''Invalid Project id''), s)
          else if isProjectValidationOptional h = Some True
                  \<and> \<not> present (headers_projectId request)
          then (Inr True, s)
          else if present (headers_projectId request) then
            (case EG_validateOrganizationMembers d (str (headers_organizationId request))
                    (user_id request) (FetchDeletedRecords h) (query_deletedStatus request)
                    (FetchDeletedRecordsLevel h) (DisableFeatureForSalesforceType h)
                    (snd (EG_validateEnvironmentId d (headers_environmentId request)
                            (str (headers_projectId request))
                            (str (headers_organizationId request))
                            (FetchDeletedRecords h) (query_deletedStatus request)
                            (FetchDeletedRecordsLevel h) s)) of
               (Inl error, s2) \<Rightarrow> (Inl error, s2)
             | (Inr organizationMembers, s2) \<Rightarrow>
                 (case EG_validateProject d h (str (headers_projectId request))
                         (user_id request) organizationMembers (FetchDeletedRecordsLevel h)
                         (query_deletedStatus request)
                         (DisableFeatureForSalesforceType h) s2 of
                    (Inl error, s3) \<Rightarrow> (Inl error, s3)
                  | (Inr u, s3) \<Rightarrow> (Inr True, s3)))
          else (Inl (GuardValidationFailedException None), s))"

definition EG_canActivate :: "Deps \<Rightarrow> Handler \<Rightarrow> Request \<Rightarrow> State \<Rightarrow> (exn + bool) \<times> State" where
  "EG_canActivate d h request s = catch (EG_handleError d) (EG_canActivate_try d h request s)"

subsection \<open>AuthorizationGuard\<close>

definition AG_handleError :: "exn \<Rightarrow> exn" where
  "AG_handleError error = GuardValidationFailedException (Some UNAUTHORIZED_EXCEPTION)"

definition AG_validateOrganizationMembers_try ::
  "Deps \<Rightarrow> string \<Rightarrow> string \<Rightarrow> bool option \<Rightarrow> DeletedStatus option \<Rightarrow>
   FetchDeletedRecordsAccessLevel option \<Rightarrow> State \<Rightarrow>
   (exn + OrganizationMember PaginatedData) \<times> State" where
  "AG_validateOrganizationMembers_try d organizationId userId fetchDeletedRecords
       deletedStatusFromFilter fetchDeletedRecordsLevel s =
     (findAllOrganizationMembers d
        (organizationMemberFilters organizationId userId fetchDeletedRecords
           deletedStatusFromFilter fetchDeletedRecordsLevel),
      issue (OrganizationMemberLookup
               (organizationMemberFilters organizationId userId fetchDeletedRecords
                  deletedStatusFromFilter fetchDeletedRecordsLevel)) s)"

definition AG_validateOrganizationMembers ::
  "Deps \<Rightarrow> string \<Rightarrow> string \<Rightarrow> bool option \<Rightarrow> DeletedStatus option \<Rightarrow>
   FetchDeletedRecordsAccessLevel option \<Rightarrow> State \<Rightarrow>
   (exn + OrganizationMember PaginatedData) \<times> State" where
  "AG_validateOrganizationMembers d organizationId userId fetchDeletedRecords
       deletedStatusFromFilter fetchDeletedRecordsLevel s =
     catch AG_handleError
       (AG_validateOrganizationMembers_try d organizationId userId fetchDeletedRecords
          deletedStatusFromFilter fetchDeletedRecordsLevel s)"

definition AG_validateSalesforceType_try ::
  "ProjectDTO \<Rightarrow> ProjectMember PaginatedData \<Rightarrow> string \<Rightarrow> bool option \<Rightarrow> exn + unit" where
  "AG_validateSalesforceType_try project projectMember userId disableFeatureForSalesforceType =
     (if totalCount projectMember = 1
         \<and> project_getType project = ProjectType_SALESFORCE_ONLY
         \<and> truthy disableFeatureForSalesforceType
      then Inl (UnauthorizedException (Some (msgFeature userId)))
      else Inr ())"

definition AG_validateSalesforceType ::
  "ProjectDTO \<Rightarrow> ProjectMember PaginatedData \<Rightarrow> string \<Rightarrow> bool option \<Rightarrow> exn + unit" where
  "AG_validateSalesforceType project projectMember userId disableFeatureForSalesforceType =
     (case AG_validateSalesforceType_try project projectMember userId
             disableFeatureForSalesforceType of
        Inl error \<Rightarrow> Inl (AG_handleError error)
      | Inr u \<Rightarrow> Inr u)"

text \<open>
  The project-role block of \<open>validateProject\<close> (authorization.guard.ts 237-265); the
  value is the flag \<open>isUnAuthorized\<close> as the block leaves it.
\<close>

definition AG_projectRoleCheck ::
  "ProjectUserRoles option \<Rightarrow> OrganizationMember PaginatedData \<Rightarrow>
   ProjectMember PaginatedData \<Rightarrow> string \<Rightarrow> string \<Rightarrow> bool \<Rightarrow> exn + bool" where
  "AG_projectRoleCheck declared organizationMembers projectMember userId projectId
       isUnAuthorized =
     (case declared of
        None \<Rightarrow> Inr isUnAuthorized
      | Some required \<Rightarrow>
          (case data organizationMembers of
             [] \<Rightarrow> Inl TypeError
           | m # ms \<Rightarrow>
               if getRole m \<noteq> OWNER then
                 (if totalCount projectMember > 0 then
                    (case data projectMember of
                       [] \<Rightarrow> Inl TypeError
                     | pm # pms \<Rightarrow>
                         if member_getRole pm \<in> set (projectUserRoles required)
                         then Inr False
                         else Inl (UnauthorizedException None))
                  else Inl (UnauthorizedException (Some (msgNotInProject userId projectId))))
               else Inr isUnAuthorized))"

text \<open>
  \<open>validateProject\<close>. The call of \<open>validateSalesforceType\<close> (authorization.guard.ts
  225) is not awaited and the method is \<open>async\<close>: its outcome is the promise
  \<open>dropped\<close>, which nothing reads.
\<close>

definition AG_validateProject_try ::
  "Deps \<Rightarrow> Handler \<Rightarrow> Request \<Rightarrow> string \<Rightarrow> string \<Rightarrow> OrganizationMember PaginatedData \<Rightarrow>
   DeletedStatus option \<Rightarrow> bool option \<Rightarrow> bool \<Rightarrow> State \<Rightarrow> (exn + unit) \<times> State" where
  "AG_validateProject_try d h request projectId userId organizationMembers
       deletedStatusFromFilter disableFeatureForSalesforceType isUnAuthorized s =
     (case headers_organizationId request of
        None \<Rightarrow> (Inl TypeError, s)
      | Some organizationId \<Rightarrow>
          (case getProjectById d projectId s of
             (Inl error, s1) \<Rightarrow> (Inl error, s1)
           | (Inr project, s1) \<Rightarrow>
               ((case findAllProjectMembers d
                        (getProjectMemberFilters projectId userId (FetchDeletedRecordsLevel h)
                           (FetchDeletedRecords h) deletedStatusFromFilter) of
                   Inl error \<Rightarrow> Inl error
                 | Inr projectMember \<Rightarrow>
                     (let dropped = AG_validateSalesforceType project projectMember userId
                                      disableFeatureForSalesforceType
                      in case AG_projectRoleCheck (projectAccessRole h) organizationMembers
                                projectMember userId projectId isUnAuthorized of
                           Inl error \<Rightarrow> Inl error
                         | Inr flag \<Rightarrow>
                             if flag then Inl (UnauthorizedException None) else Inr ())),
                issue (ProjectMemberLookup
                         (getProjectMemberFilters projectId userId (FetchDeletedRecordsLevel h)
                            (FetchDeletedRecords h) deletedStatusFromFilter))
                  (s1\<lparr>request_project := Some project\<rparr>))))"

definition AG_validateProject ::
  "Deps \<Rightarrow> Handler \<Rightarrow> Request \<Rightarrow> string \<Rightarrow> string \<Rightarrow> OrganizationMember PaginatedData \<Rightarrow>
   DeletedStatus option \<Rightarrow> bool option \<Rightarrow> bool \<Rightarrow> State \<Rightarrow> (exn + unit) \<times> State" where
  "AG_validateProject d h request projectId userId organizationMembers
       deletedStatusFromFilter disableFeatureForSalesforceType isUnAuthorized s =
     catch AG_handleError
       (AG_validateProject_try d h request projectId userId organizationMembers
          deletedStatusFromFilter disableFeatureForSalesforceType isUnAuthorized s)"

text \<open>
  The operand \<open>accessRole\<close> of the bitwise AND (authorization.guard.ts 103): JavaScript
  reads \<open>undefined\<close> as 0 there.
\<close>

fun toInt32 :: "32 word option \<Rightarrow> 32 word" where
  "toInt32 None = 0"
| "toInt32 (Some w) = w"

definition AG_canActivate_try :: "Deps \<Rightarrow> Handler \<Rightarrow> Request \<Rightarrow> State \<Rightarrow> (exn + bool) \<times> State" where
  "AG_canActivate_try d h request s =
     (case headers_organizationId request of
        None \<Rightarrow> (Inl TypeError, s)
      | Some organizationId \<Rightarrow>
          (case AG_validateOrganizationMembers d organizationId (user_id request)
                  (FetchDeletedRecords h) (query_deletedStatus request)
                  (FetchDeletedRecordsLevel h) s of
             (Inl error, s1) \<Rightarrow> (Inl error, s1)
           | (Inr organizationMembers, s1) \<Rightarrow>
               if totalCount organizationMembers = 1 then
                 (case data organizationMembers of
                    [] \<Rightarrow> (Inl TypeError, s1)
                  | m # ms \<Rightarrow>
                      if getType (getOrganization m) = OrganizationType_SALESFORCE_ONLY
                         \<and> truthy (DisableFeatureForSalesforceType h)
                      then (Inl (UnauthorizedException (Some (msgFeature (user_id request)))), s1)
                      else
                        (case headers_projectId request of
                           None \<Rightarrow> (Inl TypeError, s1)
                         | Some projectId \<Rightarrow>
                             (case AG_validateProject d h request projectId (user_id request)
                                     organizationMembers (query_deletedStatus request)
                                     (DisableFeatureForSalesforceType h)
                                     (AuthorizationUserRole d (getRole m) AND toInt32 (accessRole h)
                                        = 0)
                                     s1 of
                                (Inl error, s2) \<Rightarrow> (Inl error, s2)
                              | (Inr u, s2) \<Rightarrow> (Inr True, s2))))
               else
                 (Inl (BadRequestException
                         (msgNotInOrganization (user_id request) organizationId)), s1)))"

definition AG_canActivate :: "Deps \<Rightarrow> Handler \<Rightarrow> Request \<Rightarrow> State \<Rightarrow> (exn + bool) \<times> State" where
  "AG_canActivate d h request s = catch AG_handleError (AG_canActivate_try d h request s)"

subsection \<open>Names for the statements\<close>

text \<open>
  The two membership lookups on the filters the guards build for a request, and the
  identifier checks of the environment guard that stand before its first lookup.
\<close>

abbreviation organizationLookup ::
  "Deps \<Rightarrow> Handler \<Rightarrow> Request \<Rightarrow> exn + OrganizationMember PaginatedData" where
  "organizationLookup d h request \<equiv>
     findAllOrganizationMembers d
       (organizationMemberFilters (str (headers_organizationId request)) (user_id request)
          (FetchDeletedRecords h) (query_deletedStatus request) (FetchDeletedRecordsLevel h))"

abbreviation projectMemberLookup ::
  "Deps \<Rightarrow> Handler \<Rightarrow> Request \<Rightarrow> exn + ProjectMember PaginatedData" where
  "projectMemberLookup d h request \<equiv>
     findAllProjectMembers d
       (getProjectMemberFilters (str (headers_projectId request)) (user_id request)
          (FetchDeletedRecordsLevel h) (FetchDeletedRecords h) (query_deletedStatus request))"

definition identifiersValid :: "Deps \<Rightarrow> Request \<Rightarrow> bool" where
  "identifiersValid d request =
     (present (headers_organizationId request)
      \<and> validate d (str (headers_organizationId request))
      \<and> present (headers_projectId request)
      \<and> validate d (str (headers_projectId request)))"

subsection \<open>Concrete inputs\<close>

text \<open>
  A request with three well-formed identifiers, as the HTTP framework hands it to a guard
  (a cyclic object), a handler that requires the project role Member, and services in
  which the user is a Member of the organization and of the project. The stand-in for
  \<open>validate\<close> accepts the strings of 36 characters.
\<close>

definition memberOf :: "OrganizationUserRoles \<Rightarrow> OrganizationType \<Rightarrow> OrganizationMember" where
  "memberOf r ty = \<lparr>getRole = r, getOrganization = \<lparr>getType = ty\<rparr>\<rparr>"

definition organizationMembersOf ::
  "OrganizationMember list \<Rightarrow> OrganizationMemberFiltersDTO
   \<Rightarrow> exn + OrganizationMember PaginatedData" where
  "organizationMembersOf ms f = Inr \<lparr>data = ms, totalCount = length ms\<rparr>"

definition projectMembersOf ::
  "ProjectUserRoles list \<Rightarrow> ProjectMemberFiltersDTO \<Rightarrow> exn + ProjectMember PaginatedData" where
  "projectMembersOf rs f =
     Inr \<lparr>data = map (\<lambda>r. \<lparr>member_getRole = r\<rparr>) rs, totalCount = length rs\<rparr>"

definition exampleDeps :: Deps where
  "exampleDeps =
     \<lparr>findAllOrganizationMembers =
        organizationMembersOf [memberOf OrganizationUserRoles_MEMBER OrganizationType_OTHER],
      findProjectById = (\<lambda>p. Inr \<lparr>project_getType = ProjectType_OTHER\<rparr>),
      findAllProjectMembers = projectMembersOf [MEMBER],
      findEnvironmentId = (\<lambda>e p g. Inr (Some ''Environment found'')),
      validate = (\<lambda>v. length v = 36),
      AuthorizationUserRole =
        (\<lambda>r. case r of OWNER \<Rightarrow> 7 | OrganizationUserRoles_MANAGER \<Rightarrow> 3
              | OrganizationUserRoles_MEMBER \<Rightarrow> 1),
      gvfExtendsUnauthorized = False\<rparr>"

definition exampleHandler :: Handler where
  "exampleHandler =
     \<lparr>FetchDeletedRecords = None, FetchDeletedRecordsLevel = None,
      DisableFeatureForSalesforceType = None, isProjectValidationOptional = None,
      accessRole = Some 1, projectAccessRole = Some MEMBER\<rparr>"

definition exampleRequest :: Request where
  "exampleRequest =
     \<lparr>headers_organizationId = Some ''6f1c1a0e-58a4-4b7e-9d3a-0c2f4e5a6b71'',
      headers_projectId = Some ''a3d9e2b4-7c61-4f08-8e15-9b0d2c3e4f52'',
      headers_environmentId = Some ''c5b7f9d1-2e43-4a6c-b8d0-1f3a5c7e9b24'',
      query_deletedStatus = None,
      user_id = ''user-1'',
      cyclic = True\<rparr>"

definition emptyState :: State where
  "emptyState = \<lparr>calls = [], request_project = None\<rparr>"

section \<open>Properties\<close>

subsection \<open>Auxiliary facts\<close>

lemmas guard_defs =
  EG_canActivate_def EG_canActivate_try_def EG_validateProject_def EG_validateProject_try_def
  EG_projectRoleCheck_def EG_validateOrganizationMembers_def
  EG_validateOrganizationMembers_try_def EG_validateEnvironmentId_def
  EG_validateEnvironmentId_try_def EG_validateOrganizationId_def
  EG_validateOrganizationId_try_def EG_handleError_def catch_def issue_def truthy_def
  getProjectById_def getProjectMemberFilters_def organizationMemberFilters_def
  projectUserRoles_def AG_canActivate_def AG_canActivate_try_def AG_validateProject_def
  AG_validateProject_try_def AG_projectRoleCheck_def AG_validateSalesforceType_def
  AG_validateSalesforceType_try_def AG_validateOrganizationMembers_def
  AG_validateOrganizationMembers_try_def AG_handleError_def
  msgFeature_def msgNotInOrganization_def msgNotInProject_def

lemmas example_defs =
  memberOf_def organizationMembersOf_def projectMembersOf_def identifiersValid_def
  exampleDeps_def exampleHandler_def exampleRequest_def emptyState_def

lemma fst_catch:
  "fst (catch handler r) = (case fst r of Inl error \<Rightarrow> Inl (handler error) | Inr v \<Rightarrow> Inr v)"
  by (simp add: catch_def split: sum.split)

lemma case_outcome:
  "(case p of (Inl e, t) \<Rightarrow> f e t | (Inr v, t) \<Rightarrow> g v t)
     = (case fst p of Inl e \<Rightarrow> f e (snd p) | Inr v \<Rightarrow> g v (snd p))"
  by (cases p) (simp split: sum.split)

lemma AG_canActivate_try_allows: "fst (AG_canActivate_try d h request s) = Inr b \<Longrightarrow> b"
  by (auto simp: AG_canActivate_try_def
        split: option.splits prod.splits sum.splits if_splits list.splits)

lemma EG_canActivate_try_allows: "fst (EG_canActivate_try d h request s) = Inr b \<Longrightarrow> b"
  by (auto simp: EG_canActivate_try_def
        split: option.splits prod.splits sum.splits if_splits list.splits)

text \<open>What the authorization guard returns once its organization stage has passed.\<close>

lemma AG_past_organization:
  assumes "headers_organizationId request = Some organizationId"
    and "headers_projectId request = Some projectId"
    and "organizationLookup d h request = Inr om" and "totalCount om = 1"
    and "data om = m # ms"
    and "\<not> (getType (getOrganization m) = OrganizationType_SALESFORCE_ONLY
             \<and> truthy (DisableFeatureForSalesforceType h))"
    and "findProjectById d projectId = Inr project"
    and "projectMemberLookup d h request = Inr pm"
  shows "fst (AG_canActivate d h request s) =
     (case AG_projectRoleCheck (projectAccessRole h) om pm (user_id request) projectId
             (AuthorizationUserRole d (getRole m) AND toInt32 (accessRole h) = 0) of
        Inl e \<Rightarrow> Inl (GuardValidationFailedException (Some UNAUTHORIZED_EXCEPTION))
      | Inr flag \<Rightarrow>
          if flag then Inl (GuardValidationFailedException (Some UNAUTHORIZED_EXCEPTION))
          else Inr True)"
proof -
  have om: "fst (AG_validateOrganizationMembers d organizationId
                     (user_id request) (FetchDeletedRecords h) (query_deletedStatus request)
                     (FetchDeletedRecordsLevel h) s') = Inr om" for s'
    using assms
    by (simp add: AG_validateOrganizationMembers_def AG_validateOrganizationMembers_try_def
          fst_catch)
  have pr: "fst (AG_validateProject_try d h request projectId (user_id request)
              om (query_deletedStatus request) (DisableFeatureForSalesforceType h) flag0 s') =
     (case AG_projectRoleCheck (projectAccessRole h) om pm (user_id request) projectId flag0 of
        Inl e \<Rightarrow> Inl e
      | Inr flag \<Rightarrow> if flag then Inl (UnauthorizedException None) else Inr ())" for s' flag0
    using assms by (simp add: AG_validateProject_try_def getProjectById_def Let_def)
  show ?thesis
    using assms(1,2,4,5,6) om
    by (auto simp: AG_canActivate_def AG_canActivate_try_def AG_validateProject_def pr
          fst_catch AG_handleError_def case_outcome split: sum.splits)
qed

subsection \<open>C1: the error classifier\<close>

text \<open>
  Claim C1 (amended). The classifier keeps the asymmetry in the tag only, and no failure
  passes through it. In the environment guard a failure that is an
  \<open>UnauthorizedException\<close> is thrown again as the generic guard-failure error tagged
  \<open>UNAUTHORIZED\<close>, and a bad-request failure is thrown again as the generic guard-failure
  error built without a tag: its message is dropped. In the authorization guard every
  failure, a bad-request one included, is thrown again tagged \<open>UNAUTHORIZED\<close>. So
  whatever either pipeline throws is the generic guard-failure error, and what it returns
  is \<open>true\<close>.
\<close>

theorem handleError_rethrows_every_failure:
  "AG_handleError error = GuardValidationFailedException (Some UNAUTHORIZED_EXCEPTION)
   \<and> EG_handleError d (UnauthorizedException u)
       = GuardValidationFailedException (Some UNAUTHORIZED_EXCEPTION)
   \<and> EG_handleError d (BadRequestException m) = GuardValidationFailedException None
   \<and> (case fst (AG_canActivate d h request s) of
         Inl e \<Rightarrow> e = GuardValidationFailedException (Some UNAUTHORIZED_EXCEPTION)
       | Inr allow \<Rightarrow> allow)
   \<and> (case fst (EG_canActivate d h request s) of
         Inl e \<Rightarrow> e = GuardValidationFailedException (Some UNAUTHORIZED_EXCEPTION)
                  \<or> e = GuardValidationFailedException None
       | Inr allow \<Rightarrow> allow)"
proof -
  have a: "case fst (AG_canActivate d h request s) of
         Inl e \<Rightarrow> e = GuardValidationFailedException (Some UNAUTHORIZED_EXCEPTION)
       | Inr allow \<Rightarrow> allow"
    using AG_canActivate_try_allows [of d h request s]
    by (auto simp: AG_canActivate_def fst_catch AG_handleError_def split: sum.split)
  have e: "case fst (EG_canActivate d h request s) of
         Inl e \<Rightarrow> e = GuardValidationFailedException (Some UNAUTHORIZED_EXCEPTION)
                  \<or> e = GuardValidationFailedException None
       | Inr allow \<Rightarrow> allow"
    using EG_canActivate_try_allows [of d h request s]
    by (auto simp: EG_canActivate_def fst_catch EG_handleError_def split: sum.split)
  show ?thesis using a e by (simp add: AG_handleError_def EG_handleError_def)
qed

text \<open>The theorem at a request without the organization header.\<close>

theorem handleError_rethrows_every_failure_witness:
  "EG_handleError exampleDeps (BadRequestException ''Invalid Organization id'')
     = GuardValidationFailedException None
   \<and> fst (EG_canActivate exampleDeps exampleHandler
            (exampleRequest\<lparr>headers_organizationId := None\<rparr>) emptyState)
     = Inl (GuardValidationFailedException None)
   \<and> fst (AG_canActivate exampleDeps exampleHandler
            (exampleRequest\<lparr>headers_organizationId := None\<rparr>) emptyState)
     = Inl (GuardValidationFailedException (Some UNAUTHORIZED_EXCEPTION))"
  using handleError_rethrows_every_failure
    [of TypeError exampleDeps None "''Invalid Organization id''" exampleHandler
        "exampleRequest\<lparr>headers_organizationId := None\<rparr>" emptyState]
  by (simp add: guard_defs example_defs)

text \<open>
  The claim as stated fails: the bad-request failure \<open>Invalid Organization id\<close> of the
  environment guard, and the bad-request failure of a user outside the organization in
  the authorization guard, do not reach the caller; a guard-failure error does.
\<close>

theorem bad_request_does_not_pass_through_counterexample:
  "EG_validateOrganizationId_try exampleDeps None
     = Inl (BadRequestException ''Invalid Organization id'')
   \<and> fst (EG_canActivate exampleDeps exampleHandler
            (exampleRequest\<lparr>headers_organizationId := None\<rparr>) emptyState)
     = Inl (GuardValidationFailedException None)
   \<and> fst (EG_canActivate exampleDeps exampleHandler
            (exampleRequest\<lparr>headers_organizationId := None, cyclic := False\<rparr>) emptyState)
     = Inl (GuardValidationFailedException None)
   \<and> fst (AG_canActivate_try
            (exampleDeps\<lparr>findAllOrganizationMembers := organizationMembersOf []\<rparr>)
            exampleHandler exampleRequest emptyState)
     = Inl (BadRequestException
         (''The user with (id)=(user-1) is not a part of the organization ''
            @ ''(id)=(6f1c1a0e-58a4-4b7e-9d3a-0c2f4e5a6b71)''))
   \<and> fst (AG_canActivate
            (exampleDeps\<lparr>findAllOrganizationMembers := organizationMembersOf []\<rparr>)
            exampleHandler exampleRequest emptyState)
     = Inl (GuardValidationFailedException (Some UNAUTHORIZED_EXCEPTION))"
  by (simp add: guard_defs example_defs)

subsection \<open>C2: an environment that does not exist\<close>

text \<open>
  Claim C2 (amended). For a well-formed environment identifier for which the environment
  lookup reports no environment under the (project, organization) pair, the environment
  validator fails with an unauthorized-class error: it throws \<open>UnauthorizedException\<close>,
  which its classifier throws again as the generic guard-failure error tagged
  \<open>UNAUTHORIZED\<close>. It is not a bad-request (\<open>ResourceNotFound\<close>) error.
\<close>

theorem environment_not_found_is_unauthorized:
  assumes "present environmentId" and "validate d (str environmentId)"
    and "findEnvironmentId d (str environmentId) projectId organizationId = Inr None"
  shows "fst (EG_validateEnvironmentId_try d environmentId projectId organizationId
                fetchDeletedRecords deletedStatusFromFilter fetchDeletedRecordsLevel s)
           = Inl (UnauthorizedException None)
         \<and> fst (EG_validateEnvironmentId d environmentId projectId organizationId
                  fetchDeletedRecords deletedStatusFromFilter fetchDeletedRecordsLevel s)
           = Inl (GuardValidationFailedException (Some UNAUTHORIZED_EXCEPTION))"
  using assms
  by (simp add: EG_validateEnvironmentId_def EG_validateEnvironmentId_try_def fst_catch
        EG_handleError_def)

theorem environment_not_found_is_unauthorized_witness:
  "fst (EG_validateEnvironmentId (exampleDeps\<lparr>findEnvironmentId := \<lambda>e p g. Inr None\<rparr>)
          (Some ''c5b7f9d1-2e43-4a6c-b8d0-1f3a5c7e9b24'')
          ''a3d9e2b4-7c61-4f08-8e15-9b0d2c3e4f52'' ''6f1c1a0e-58a4-4b7e-9d3a-0c2f4e5a6b71''
          None None None emptyState)
     = Inl (GuardValidationFailedException (Some UNAUTHORIZED_EXCEPTION))"
  using environment_not_found_is_unauthorized
    [where d = "exampleDeps\<lparr>findEnvironmentId := \<lambda>e p g. Inr None\<rparr>"
       and environmentId = "Some ''c5b7f9d1-2e43-4a6c-b8d0-1f3a5c7e9b24''"
       and projectId = "''a3d9e2b4-7c61-4f08-8e15-9b0d2c3e4f52''"
       and organizationId = "''6f1c1a0e-58a4-4b7e-9d3a-0c2f4e5a6b71''"
       and fetchDeletedRecords = None and deletedStatusFromFilter = None
       and fetchDeletedRecordsLevel = None and s = emptyState]
  by (simp add: example_defs)

text \<open>
  The claim as stated fails where the environment lookup reports no environment. The
  failure the validator raises for it is an \<open>UnauthorizedException\<close>. On the request
  object of the framework, which is cyclic, \<open>canActivate\<close> denies, but with the untagged
  guard-failure error of the \<open>TypeError\<close> of its debug call, and no lookup, the
  environment lookup included, has been issued. On a request object that serialises,
  \<open>canActivate\<close>, which does not await the validator, returns \<open>true\<close>.
\<close>

theorem environment_not_found_counterexample:
  "findEnvironmentId (exampleDeps\<lparr>findEnvironmentId := \<lambda>e p g. Inr None\<rparr>)
       ''c5b7f9d1-2e43-4a6c-b8d0-1f3a5c7e9b24'' ''a3d9e2b4-7c61-4f08-8e15-9b0d2c3e4f52''
       ''6f1c1a0e-58a4-4b7e-9d3a-0c2f4e5a6b71'' = Inr None
   \<and> fst (EG_validateEnvironmentId_try (exampleDeps\<lparr>findEnvironmentId := \<lambda>e p g. Inr None\<rparr>)
            (headers_environmentId exampleRequest) ''a3d9e2b4-7c61-4f08-8e15-9b0d2c3e4f52''
            ''6f1c1a0e-58a4-4b7e-9d3a-0c2f4e5a6b71'' None None None emptyState)
       = Inl (UnauthorizedException None)
   \<and> cyclic exampleRequest
   \<and> fst (EG_canActivate_try (exampleDeps\<lparr>findEnvironmentId := \<lambda>e p g. Inr None\<rparr>)
            exampleHandler exampleRequest emptyState) = Inl TypeError
   \<and> EG_canActivate (exampleDeps\<lparr>findEnvironmentId := \<lambda>e p g. Inr None\<rparr>)
            exampleHandler exampleRequest emptyState
       = (Inl (GuardValidationFailedException None), emptyState)
   \<and> fst (EG_canActivate (exampleDeps\<lparr>findEnvironmentId := \<lambda>e p g. Inr None\<rparr>)
            exampleHandler (exampleRequest\<lparr>cyclic := False\<rparr>) emptyState) = Inr True"
  by (simp add: guard_defs example_defs)

subsection \<open>C3: malformed identifiers\<close>

text \<open>
  Claim C3 (amended). In the environment guard, a request whose organization identifier
  is absent, empty or not a valid identifier token, or whose project identifier is
  supplied and not a valid token, or is not supplied while project validation is not
  optional, is denied with the generic guard-failure error before any lookup is issued:
  the state, and with it the list of calls, is the one the pipeline started from. The
  failure that the identifier checks raise for a malformed organization or project
  identifier is the bad-request error \<open>Invalid Organization id\<close> or
  \<open>Invalid Project id\<close>.
\<close>

theorem malformed_organization_or_project_id_denied_before_lookups:
  "(\<not> present (headers_organizationId request)
      \<or> \<not> validate d (str (headers_organizationId request))
    \<longrightarrow> EG_validateOrganizationId_try d (headers_organizationId request)
          = Inl (BadRequestException ''Invalid Organization id'')
        \<and> EG_canActivate d h request s
          = (Inl (GuardValidationFailedException
                   (if gvfExtendsUnauthorized d \<and> \<not> cyclic request
                    then Some UNAUTHORIZED_EXCEPTION else None)), s))
   \<and> (present (headers_organizationId request)
        \<and> validate d (str (headers_organizationId request))
        \<and> present (headers_projectId request)
        \<and> \<not> validate d (str (headers_projectId request))
    \<longrightarrow> EG_canActivate_try d h request s
          = (Inl (if cyclic request then TypeError
                  else BadRequestException ''Invalid Project id''), s)
        \<and> EG_canActivate d h request s = (Inl (GuardValidationFailedException None), s))
   \<and> (present (headers_organizationId request)
        \<and> validate d (str (headers_organizationId request))
        \<and> \<not> present (headers_projectId request)
        \<and> isProjectValidationOptional h \<noteq> Some True
    \<longrightarrow> EG_canActivate d h request s
          = (Inl (GuardValidationFailedException
                   (if gvfExtendsUnauthorized d \<and> \<not> cyclic request
                    then Some UNAUTHORIZED_EXCEPTION else None)), s))"
  by (auto simp: EG_canActivate_def EG_canActivate_try_def EG_validateOrganizationId_def
        EG_validateOrganizationId_try_def EG_handleError_def catch_def)

text \<open>
  The theorem at three requests of the framework, and at the same three as objects that
  serialise.
\<close>

theorem malformed_organization_or_project_id_denied_before_lookups_witness:
  "\<not> validate exampleDeps ''not-a-uuid''
   \<and> EG_canActivate exampleDeps exampleHandler
        (exampleRequest\<lparr>headers_organizationId := Some ''not-a-uuid''\<rparr>) emptyState
       = (Inl (GuardValidationFailedException None), emptyState)
   \<and> EG_canActivate exampleDeps exampleHandler
        (exampleRequest\<lparr>headers_projectId := Some ''not-a-uuid''\<rparr>) emptyState
       = (Inl (GuardValidationFailedException None), emptyState)
   \<and> EG_canActivate exampleDeps exampleHandler
        (exampleRequest\<lparr>headers_projectId := None\<rparr>) emptyState
       = (Inl (GuardValidationFailedException None), emptyState)
   \<and> EG_canActivate exampleDeps exampleHandler
        (exampleRequest\<lparr>headers_organizationId := Some ''not-a-uuid'', cyclic := False\<rparr>)
        emptyState
       = (Inl (GuardValidationFailedException None), emptyState)
   \<and> EG_canActivate_try exampleDeps exampleHandler
        (exampleRequest\<lparr>headers_projectId := Some ''not-a-uuid'', cyclic := False\<rparr>)
        emptyState
       = (Inl (BadRequestException ''Invalid Project id''), emptyState)
   \<and> EG_canActivate exampleDeps exampleHandler
        (exampleRequest\<lparr>headers_projectId := None, cyclic := False\<rparr>) emptyState
       = (Inl (GuardValidationFailedException None), emptyState)"
  using malformed_organization_or_project_id_denied_before_lookups
    [of "exampleRequest\<lparr>headers_organizationId := Some ''not-a-uuid''\<rparr>" exampleDeps
        exampleHandler emptyState]
    malformed_organization_or_project_id_denied_before_lookups
    [of "exampleRequest\<lparr>headers_projectId := Some ''not-a-uuid''\<rparr>" exampleDeps
        exampleHandler emptyState]
    malformed_organization_or_project_id_denied_before_lookups
    [of "exampleRequest\<lparr>headers_projectId := None\<rparr>" exampleDeps exampleHandler emptyState]
    malformed_organization_or_project_id_denied_before_lookups
    [of "exampleRequest\<lparr>headers_organizationId := Some ''not-a-uuid'', cyclic := False\<rparr>"
        exampleDeps exampleHandler emptyState]
    malformed_organization_or_project_id_denied_before_lookups
    [of "exampleRequest\<lparr>headers_projectId := Some ''not-a-uuid'', cyclic := False\<rparr>"
        exampleDeps exampleHandler emptyState]
    malformed_organization_or_project_id_denied_before_lookups
    [of "exampleRequest\<lparr>headers_projectId := None, cyclic := False\<rparr>" exampleDeps
        exampleHandler emptyState]
  by (simp add: example_defs)

text \<open>
  The claim as stated fails in the authorization guard: an organization identifier that
  is no valid token goes to the membership lookup as it is, and the request is allowed.
\<close>

theorem malformed_identifier_counterexample:
  "\<not> validate exampleDeps ''not-a-uuid''
   \<and> fst (AG_canActivate exampleDeps exampleHandler
            (exampleRequest\<lparr>headers_organizationId := Some ''not-a-uuid''\<rparr>) emptyState)
       = Inr True
   \<and> calls (snd (AG_canActivate exampleDeps exampleHandler
            (exampleRequest\<lparr>headers_organizationId := Some ''not-a-uuid''\<rparr>) emptyState))
       = [OrganizationMemberLookup
            \<lparr>om_organizationId = ''not-a-uuid'', om_userId = ''user-1'',
             om_expandOrganization = True, om_deletedStatus = NOT_DELETED\<rparr>,
          ProjectLookup ''a3d9e2b4-7c61-4f08-8e15-9b0d2c3e4f52'',
          ProjectMemberLookup
            \<lparr>pm_projectId = ''a3d9e2b4-7c61-4f08-8e15-9b0d2c3e4f52'', pm_userId = ''user-1'',
             pm_deletedStatus = NOT_DELETED\<rparr>]"
  by (simp add: guard_defs example_defs)

subsection \<open>C4: the organization Owner and the project role\<close>

text \<open>
  Claim C4 says that an Owner of the organization, on an operation that declares a
  required project role, is denied neither as no project member nor for an insufficient
  role, also with zero project memberships. The authorization guard departs from it.
  On the handler below, which requires the project role Manager and declares no
  \<open>accessRole\<close>, the bitwise AND with \<open>undefined\<close> is 0 and the pending flag is set;
  the Owner skips the project-role block, the one place that clears the flag, and
  \<open>validateProject\<close> throws the insufficient-role failure. A Member of the organization
  who is Manager of the project is allowed on the same handler.
\<close>

theorem owner_denied_by_pending_flag:
  "accessRole (exampleHandler\<lparr>accessRole := None, projectAccessRole := Some MANAGER\<rparr>) = None
   \<and> fst (AG_validateProject_try
           (exampleDeps\<lparr>findAllOrganizationMembers :=
                          organizationMembersOf [memberOf OWNER OrganizationType_OTHER],
                        findAllProjectMembers := projectMembersOf []\<rparr>)
           (exampleHandler\<lparr>accessRole := None, projectAccessRole := Some MANAGER\<rparr>)
           exampleRequest ''a3d9e2b4-7c61-4f08-8e15-9b0d2c3e4f52'' ''user-1''
           \<lparr>data = [memberOf OWNER OrganizationType_OTHER], totalCount = 1\<rparr>
           None None True emptyState)
       = Inl (UnauthorizedException None)
   \<and> fst (AG_canActivate
           (exampleDeps\<lparr>findAllOrganizationMembers :=
                          organizationMembersOf [memberOf OWNER OrganizationType_OTHER],
                        findAllProjectMembers := projectMembersOf []\<rparr>)
           (exampleHandler\<lparr>accessRole := None, projectAccessRole := Some MANAGER\<rparr>)
           exampleRequest emptyState)
       = Inl (GuardValidationFailedException (Some UNAUTHORIZED_EXCEPTION))
   \<and> fst (AG_canActivate
           (exampleDeps\<lparr>findAllProjectMembers := projectMembersOf [MANAGER]\<rparr>)
           (exampleHandler\<lparr>accessRole := None, projectAccessRole := Some MANAGER\<rparr>)
           exampleRequest emptyState)
       = Inr True"
  by (simp add: guard_defs example_defs)

subsection \<open>C5: the deleted-status filter per tier\<close>

text \<open>
  Claim C5. When the fetch-deleted level the operation declares is the current tier and
  its \<open>FetchDeletedRecords\<close> flag is true, the resolved deleted-status filter is
  only-deleted at the Project tier, and with-deleted at the Organization tier and at the
  Environment tier, on the same flags.
\<close>

theorem fetch_deleted_flag_resolution_by_tier:
  assumes "truthy fetchDeletedRecords"
  shows "pm_deletedStatus (getProjectMemberFilters projectId userId (Some PROJECT)
                              fetchDeletedRecords deletedStatusFromFilter) = ONLY_DELETED
       \<and> om_deletedStatus (organizationMemberFilters organizationId userId fetchDeletedRecords
                              deletedStatusFromFilter (Some ORGANIZATION)) = WITH_DELETED
       \<and> (present environmentId \<and> validate d (str environmentId)
            \<and> findEnvironmentId d (str environmentId) projectId organizationId
                = Inr (Some message)
          \<longrightarrow> fst (EG_validateEnvironmentId_try d environmentId projectId organizationId
                     fetchDeletedRecords deletedStatusFromFilter (Some ENVIRONMENT) s)
                = Inr \<lparr>env_deletedStatus = WITH_DELETED\<rparr>)"
  using assms
  by (simp add: getProjectMemberFilters_def organizationMemberFilters_def
        EG_validateEnvironmentId_try_def)

theorem fetch_deleted_flag_resolution_by_tier_witness:
  "truthy (Some True)
   \<and> pm_deletedStatus (getProjectMemberFilters ''a3d9e2b4-7c61-4f08-8e15-9b0d2c3e4f52''
         ''user-1'' (Some PROJECT) (Some True) None) = ONLY_DELETED
   \<and> om_deletedStatus (organizationMemberFilters ''6f1c1a0e-58a4-4b7e-9d3a-0c2f4e5a6b71''
         ''user-1'' (Some True) None (Some ORGANIZATION)) = WITH_DELETED
   \<and> fst (EG_validateEnvironmentId_try exampleDeps (headers_environmentId exampleRequest)
           ''a3d9e2b4-7c61-4f08-8e15-9b0d2c3e4f52'' ''6f1c1a0e-58a4-4b7e-9d3a-0c2f4e5a6b71''
           (Some True) None (Some ENVIRONMENT) emptyState)
       = Inr \<lparr>env_deletedStatus = WITH_DELETED\<rparr>"
proof -
  have t: "truthy (Some True)" by (simp add: truthy_def)
  show ?thesis
    using t fetch_deleted_flag_resolution_by_tier [OF t,
      of "''a3d9e2b4-7c61-4f08-8e15-9b0d2c3e4f52''" "''user-1''" None
         "''6f1c1a0e-58a4-4b7e-9d3a-0c2f4e5a6b71''" "headers_environmentId exampleRequest"
         exampleDeps "''Environment found''" emptyState]
    by (simp add: example_defs)
qed

subsection \<open>C6: the organization-membership count\<close>

text \<open>
  Claim C6. When the organization-membership lookup of a request returns a total count
  other than 1, the pipeline denies: the failure raised is the bad-request error that the
  user is not a part of the organization, and \<open>canActivate\<close> throws the generic
  guard-failure error, whatever roles the handler requires. In the authorization guard
  the lookup is reached once the organization header is there, in the environment guard
  once the organization and project identifiers are valid and the debug call has not
  thrown; where it has thrown, the guard has denied already.
\<close>

theorem organization_membership_count_not_one_denied:
  assumes "organizationLookup d h request = Inr r" and "totalCount r \<noteq> 1"
  shows "(headers_organizationId request \<noteq> None
          \<longrightarrow> fst (AG_canActivate_try d h request s)
                = Inl (BadRequestException
                        (msgNotInOrganization (user_id request)
                           (str (headers_organizationId request))))
              \<and> fst (AG_canActivate d h request s)
                = Inl (GuardValidationFailedException (Some UNAUTHORIZED_EXCEPTION)))
       \<and> (identifiersValid d request
          \<longrightarrow> fst (EG_validateOrganizationMembers_try d (str (headers_organizationId request))
                     (user_id request) (FetchDeletedRecords h) (query_deletedStatus request)
                     (FetchDeletedRecordsLevel h) (DisableFeatureForSalesforceType h) s')
                = Inl (BadRequestException
                        (msgNotInOrganization (user_id request)
                           (str (headers_organizationId request))))
              \<and> fst (EG_canActivate d h request s)
                = Inl (GuardValidationFailedException
                        (if gvfExtendsUnauthorized d \<and> \<not> cyclic request
                         then Some UNAUTHORIZED_EXCEPTION else None)))"
proof -
  have a: "headers_organizationId request \<noteq> None \<Longrightarrow>
      fst (AG_canActivate_try d h request s)
        = Inl (BadRequestException
                (msgNotInOrganization (user_id request) (str (headers_organizationId request))))"
    using assms
    by (cases "headers_organizationId request")
       (simp_all add: AG_canActivate_try_def AG_validateOrganizationMembers_def
          AG_validateOrganizationMembers_try_def catch_def)
  have b: "fst (EG_validateOrganizationMembers_try d (str (headers_organizationId request))
                     (user_id request) (FetchDeletedRecords h) (query_deletedStatus request)
                     (FetchDeletedRecordsLevel h) (DisableFeatureForSalesforceType h) s')
                = Inl (BadRequestException
                        (msgNotInOrganization (user_id request)
                           (str (headers_organizationId request))))" for s'
    using assms by (simp add: EG_validateOrganizationMembers_try_def)
  have c: "identifiersValid d request \<Longrightarrow> fst (EG_canActivate d h request s)
                = Inl (GuardValidationFailedException
                        (if gvfExtendsUnauthorized d \<and> \<not> cyclic request
                         then Some UNAUTHORIZED_EXCEPTION else None))"
    using b
    by (simp add: identifiersValid_def EG_canActivate_def EG_canActivate_try_def
          EG_validateOrganizationId_def EG_validateOrganizationId_try_def
          EG_validateOrganizationMembers_def fst_catch EG_handleError_def case_outcome)
  show ?thesis using a b c by (simp add: AG_canActivate_def fst_catch AG_handleError_def)
qed

text \<open>No membership record, and two of them.\<close>

theorem organization_membership_count_not_one_denied_witness:
  "fst (AG_canActivate (exampleDeps\<lparr>findAllOrganizationMembers := organizationMembersOf []\<rparr>)
          exampleHandler exampleRequest emptyState)
     = Inl (GuardValidationFailedException (Some UNAUTHORIZED_EXCEPTION))
   \<and> fst (EG_canActivate (exampleDeps\<lparr>findAllOrganizationMembers := organizationMembersOf []\<rparr>)
          exampleHandler exampleRequest emptyState)
     = Inl (GuardValidationFailedException None)
   \<and> fst (EG_canActivate
          (exampleDeps\<lparr>findAllOrganizationMembers :=
             organizationMembersOf [memberOf OWNER OrganizationType_OTHER,
                                    memberOf OWNER OrganizationType_OTHER]\<rparr>)
          exampleHandler exampleRequest emptyState)
     = Inl (GuardValidationFailedException None)
   \<and> fst (EG_canActivate (exampleDeps\<lparr>findAllOrganizationMembers := organizationMembersOf []\<rparr>)
          exampleHandler (exampleRequest\<lparr>cyclic := False\<rparr>) emptyState)
     = Inl (GuardValidationFailedException None)
   \<and> fst (EG_validateOrganizationMembers_try
          (exampleDeps\<lparr>findAllOrganizationMembers := organizationMembersOf []\<rparr>)
          ''6f1c1a0e-58a4-4b7e-9d3a-0c2f4e5a6b71'' ''user-1'' None None None None emptyState)
     = Inl (BadRequestException
         (''The user with (id)=(user-1) is not a part of the organization ''
            @ ''(id)=(6f1c1a0e-58a4-4b7e-9d3a-0c2f4e5a6b71)''))"
  using organization_membership_count_not_one_denied
    [where d = "exampleDeps\<lparr>findAllOrganizationMembers := organizationMembersOf []\<rparr>"
       and h = exampleHandler and request = exampleRequest and s = emptyState
       and r = "\<lparr>data = [], totalCount = 0\<rparr>"]
    organization_membership_count_not_one_denied
    [where d = "exampleDeps\<lparr>findAllOrganizationMembers := organizationMembersOf []\<rparr>"
       and h = exampleHandler and request = "exampleRequest\<lparr>cyclic := False\<rparr>"
       and s = emptyState and s' = emptyState
       and r = "\<lparr>data = [], totalCount = 0\<rparr>"]
    organization_membership_count_not_one_denied
    [where d = "exampleDeps\<lparr>findAllOrganizationMembers :=
             organizationMembersOf [memberOf OWNER OrganizationType_OTHER,
                                    memberOf OWNER OrganizationType_OTHER]\<rparr>"
       and h = exampleHandler and request = exampleRequest and s = emptyState
       and r = "\<lparr>data = [memberOf OWNER OrganizationType_OTHER,
                         memberOf OWNER OrganizationType_OTHER], totalCount = 2\<rparr>"]
  by (simp add: example_defs msgNotInOrganization_def)

subsection \<open>C7: the tenant gate on the organization\<close>

text \<open>
  Claim C7. When the organization of the caller's one membership record has the
  restricted type \<open>SALESFORCE_ONLY\<close> and the handler sets the tenant-gate flag, the
  pipeline denies: the failure raised is the unauthorized error of the disabled feature,
  and \<open>canActivate\<close> throws the generic guard-failure error, whatever the role of the
  caller and the roles the handler requires.
\<close>

theorem restricted_organization_with_tenant_gate_denied:
  assumes "organizationLookup d h request = Inr r" and "totalCount r = 1"
    and "data r = m # ms"
    and "getType (getOrganization m) = OrganizationType_SALESFORCE_ONLY"
    and "truthy (DisableFeatureForSalesforceType h)"
  shows "(headers_organizationId request \<noteq> None
          \<longrightarrow> fst (AG_canActivate_try d h request s)
                = Inl (UnauthorizedException (Some (msgFeature (user_id request))))
              \<and> fst (AG_canActivate d h request s)
                = Inl (GuardValidationFailedException (Some UNAUTHORIZED_EXCEPTION)))
       \<and> (identifiersValid d request
          \<longrightarrow> fst (EG_validateOrganizationMembers_try d (str (headers_organizationId request))
                     (user_id request) (FetchDeletedRecords h) (query_deletedStatus request)
                     (FetchDeletedRecordsLevel h) (DisableFeatureForSalesforceType h) s')
                = Inl (UnauthorizedException (Some (msgFeature (user_id request))))
              \<and> fst (EG_canActivate d h request s)
                = Inl (GuardValidationFailedException
                        (if gvfExtendsUnauthorized d \<and> \<not> cyclic request
                         then Some UNAUTHORIZED_EXCEPTION else None)))"
proof -
  have a: "headers_organizationId request \<noteq> None \<Longrightarrow>
      fst (AG_canActivate_try d h request s)
        = Inl (UnauthorizedException (Some (msgFeature (user_id request))))"
    using assms
    by (cases "headers_organizationId request")
       (simp_all add: AG_canActivate_try_def AG_validateOrganizationMembers_def
          AG_validateOrganizationMembers_try_def catch_def)
  have b: "fst (EG_validateOrganizationMembers_try d (str (headers_organizationId request))
                     (user_id request) (FetchDeletedRecords h) (query_deletedStatus request)
                     (FetchDeletedRecordsLevel h) (DisableFeatureForSalesforceType h) s')
                = Inl (UnauthorizedException (Some (msgFeature (user_id request))))" for s'
    using assms by (simp add: EG_validateOrganizationMembers_try_def)
  have c: "identifiersValid d request \<Longrightarrow> fst (EG_canActivate d h request s)
                = Inl (GuardValidationFailedException
                        (if gvfExtendsUnauthorized d \<and> \<not> cyclic request
                         then Some UNAUTHORIZED_EXCEPTION else None))"
    using b
    by (simp add: identifiersValid_def EG_canActivate_def EG_canActivate_try_def
          EG_validateOrganizationId_def EG_validateOrganizationId_try_def
          EG_validateOrganizationMembers_def fst_catch EG_handleError_def case_outcome)
  show ?thesis using a b c by (simp add: AG_canActivate_def fst_catch AG_handleError_def)
qed

text \<open>An Owner of a restricted organization, on a handler with the gate set.\<close>

theorem restricted_organization_with_tenant_gate_denied_witness:
  "fst (AG_canActivate
          (exampleDeps\<lparr>findAllOrganizationMembers :=
             organizationMembersOf [memberOf OWNER OrganizationType_SALESFORCE_ONLY]\<rparr>)
          (exampleHandler\<lparr>DisableFeatureForSalesforceType := Some True\<rparr>)
          exampleRequest emptyState)
     = Inl (GuardValidationFailedException (Some UNAUTHORIZED_EXCEPTION))
   \<and> fst (EG_validateOrganizationMembers_try
          (exampleDeps\<lparr>findAllOrganizationMembers :=
             organizationMembersOf [memberOf OWNER OrganizationType_SALESFORCE_ONLY]\<rparr>)
          (str (headers_organizationId exampleRequest)) ''user-1'' None None None (Some True)
          emptyState)
     = Inl (UnauthorizedException
              (Some ''The user (id)=(user-1) is unauthorized to view this feature''))
   \<and> fst (EG_canActivate
          (exampleDeps\<lparr>findAllOrganizationMembers :=
             organizationMembersOf [memberOf OWNER OrganizationType_SALESFORCE_ONLY]\<rparr>)
          (exampleHandler\<lparr>DisableFeatureForSalesforceType := Some True\<rparr>)
          exampleRequest emptyState)
     = Inl (GuardValidationFailedException None)
   \<and> fst (EG_canActivate
          (exampleDeps\<lparr>findAllOrganizationMembers :=
             organizationMembersOf [memberOf OWNER OrganizationType_SALESFORCE_ONLY]\<rparr>)
          (exampleHandler\<lparr>DisableFeatureForSalesforceType := Some True\<rparr>)
          (exampleRequest\<lparr>cyclic := False\<rparr>) emptyState)
     = Inl (GuardValidationFailedException None)"
  using restricted_organization_with_tenant_gate_denied
    [where d = "exampleDeps\<lparr>findAllOrganizationMembers :=
             organizationMembersOf [memberOf OWNER OrganizationType_SALESFORCE_ONLY]\<rparr>"
       and h = "exampleHandler\<lparr>DisableFeatureForSalesforceType := Some True\<rparr>"
       and request = "exampleRequest\<lparr>cyclic := False\<rparr>"
       and s = emptyState and s' = emptyState
       and r = "\<lparr>data = [memberOf OWNER OrganizationType_SALESFORCE_ONLY], totalCount = 1\<rparr>"
       and m = "memberOf OWNER OrganizationType_SALESFORCE_ONLY" and ms = "[]"]
    restricted_organization_with_tenant_gate_denied
    [where d = "exampleDeps\<lparr>findAllOrganizationMembers :=
             organizationMembersOf [memberOf OWNER OrganizationType_SALESFORCE_ONLY]\<rparr>"
       and h = "exampleHandler\<lparr>DisableFeatureForSalesforceType := Some True\<rparr>"
       and request = exampleRequest and s = emptyState and s' = emptyState
       and r = "\<lparr>data = [memberOf OWNER OrganizationType_SALESFORCE_ONLY], totalCount = 1\<rparr>"
       and m = "memberOf OWNER OrganizationType_SALESFORCE_ONLY" and ms = "[]"]
  by (simp add: example_defs truthy_def msgFeature_def)

subsection \<open>C8: a project Member against the required project role\<close>

text \<open>
  Claim C8 says that a Member of the organization with one project membership of role
  Member is allowed when the required project role is Member. The environment guard
  departs from it. On the request object of the framework, which is cyclic, the debug
  call of \<open>canActivate\<close> throws \<open>TypeError\<close> before any check, and the guard denies
  with the untagged guard-failure error and no lookup. The project stage of the guard
  would pass this caller, and the authorization guard allows the same request.
\<close>

theorem environment_guard_denies_project_member:
  "cyclic exampleRequest
   \<and> projectAccessRole exampleHandler = Some MEMBER
   \<and> fst (EG_canActivate_try exampleDeps exampleHandler exampleRequest emptyState)
       = Inl TypeError
   \<and> EG_canActivate exampleDeps exampleHandler exampleRequest emptyState
       = (Inl (GuardValidationFailedException None), emptyState)
   \<and> fst (EG_validateProject_try exampleDeps exampleHandler
           ''a3d9e2b4-7c61-4f08-8e15-9b0d2c3e4f52'' ''user-1''
           \<lparr>data = [memberOf OrganizationUserRoles_MEMBER OrganizationType_OTHER],
             totalCount = 1\<rparr>
           None None None emptyState)
       = Inr ()
   \<and> fst (AG_canActivate exampleDeps exampleHandler exampleRequest emptyState) = Inr True"
  by (simp add: guard_defs example_defs)

subsection \<open>C9: the optional project\<close>




subsection \<open>C10: no required project role\<close>

text \<open>
  Claim C10 (amended). The operation declares no required project role, the project
  entity resolves and the project-membership lookup returns. In the environment guard
  the project stage (\<open>validateProject\<close>) then fails with the unauthorized error of the
  disabled feature exactly when the project tenant gate fires (a count of 1, a restricted
  project and the gate flag set) and passes otherwise, in particular when the caller has
  zero project memberships. In the authorization guard, when both identifier headers are
  sent, the organization-membership count is exactly 1, the organization tenant gate
  does not fire, the organization-role check left no pending flag and the project tenant
  gate does not fire, the pipeline allows, in particular when the caller has zero
  project memberships. The count of the project-membership lookup bears on the decision
  only through that tenant gate.
\<close>

theorem no_project_role_declared_allows:
  assumes "projectAccessRole h = None"
    and "findProjectById d projectId = Inr project"
    and "findAllProjectMembers d
           (getProjectMemberFilters projectId userId (FetchDeletedRecordsLevel h)
              (FetchDeletedRecords h) deletedStatusFromFilter) = Inr pm"
  shows "fst (EG_validateProject_try d h projectId userId om (FetchDeletedRecordsLevel h)
                deletedStatusFromFilter (DisableFeatureForSalesforceType h) s)
           = (if totalCount pm = 1 \<and> project_getType project = ProjectType_SALESFORCE_ONLY
                 \<and> truthy (DisableFeatureForSalesforceType h)
              then Inl (UnauthorizedException (Some (msgFeature userId)))
              else Inr ())
       \<and> (headers_organizationId request = Some organizationId
            \<and> headers_projectId request = Some projectId
            \<and> user_id request = userId
            \<and> query_deletedStatus request = deletedStatusFromFilter
            \<and> organizationLookup d h request = Inr om \<and> totalCount om = 1
            \<and> data om = m # ms
            \<and> \<not> (getType (getOrganization m) = OrganizationType_SALESFORCE_ONLY
                   \<and> truthy (DisableFeatureForSalesforceType h))
            \<and> AuthorizationUserRole d (getRole m) AND toInt32 (accessRole h) \<noteq> 0
            \<and> \<not> (totalCount pm = 1 \<and> project_getType project = ProjectType_SALESFORCE_ONLY
                   \<and> truthy (DisableFeatureForSalesforceType h))
          \<longrightarrow> fst (AG_canActivate d h request s) = Inr True)"
proof -
  have eg: "fst (EG_validateProject_try d h projectId userId om (FetchDeletedRecordsLevel h)
                deletedStatusFromFilter (DisableFeatureForSalesforceType h) s)
           = (if totalCount pm = 1 \<and> project_getType project = ProjectType_SALESFORCE_ONLY
                 \<and> truthy (DisableFeatureForSalesforceType h)
              then Inl (UnauthorizedException (Some (msgFeature userId)))
              else Inr ())"
    using assms
    by (simp add: EG_validateProject_try_def getProjectById_def EG_projectRoleCheck_def)
  have ag: "fst (AG_canActivate d h request s) = Inr True"
    if o: "headers_organizationId request = Some organizationId"
      and p: "headers_projectId request = Some projectId"
      and u: "user_id request = userId"
      and q: "query_deletedStatus request = deletedStatusFromFilter"
      and l: "organizationLookup d h request = Inr om" "totalCount om = 1" "data om = m # ms"
      and g: "\<not> (getType (getOrganization m) = OrganizationType_SALESFORCE_ONLY
                   \<and> truthy (DisableFeatureForSalesforceType h))"
      and f: "AuthorizationUserRole d (getRole m) AND toInt32 (accessRole h) \<noteq> 0"
  proof -
    have pl: "projectMemberLookup d h request = Inr pm"
      using assms(3) p u q by simp
    show ?thesis
      using AG_past_organization [OF o p l g assms(2) pl, of s] assms(1) f
      by (simp add: AG_projectRoleCheck_def)
  qed
  show ?thesis using eg ag by blast
qed

text \<open>A Member of the organization with no project membership.\<close>

theorem no_project_role_declared_allows_witness:
  "fst (EG_validateProject_try (exampleDeps\<lparr>findAllProjectMembers := projectMembersOf []\<rparr>)
          (exampleHandler\<lparr>projectAccessRole := None\<rparr>)
          ''a3d9e2b4-7c61-4f08-8e15-9b0d2c3e4f52'' ''user-1''
          \<lparr>data = [memberOf OrganizationUserRoles_MEMBER OrganizationType_OTHER],
            totalCount = 1\<rparr>
          None None None emptyState) = Inr ()
   \<and> fst (AG_canActivate (exampleDeps\<lparr>findAllProjectMembers := projectMembersOf []\<rparr>)
          (exampleHandler\<lparr>projectAccessRole := None\<rparr>) exampleRequest emptyState) = Inr True"
  using no_project_role_declared_allows
    [where d = "exampleDeps\<lparr>findAllProjectMembers := projectMembersOf []\<rparr>"
       and h = "exampleHandler\<lparr>projectAccessRole := None\<rparr>"
       and request = exampleRequest and s = emptyState
       and projectId = "''a3d9e2b4-7c61-4f08-8e15-9b0d2c3e4f52''"
       and organizationId = "''6f1c1a0e-58a4-4b7e-9d3a-0c2f4e5a6b71''"
       and userId = "''user-1''" and deletedStatusFromFilter = None
       and om = "\<lparr>data = [memberOf OrganizationUserRoles_MEMBER OrganizationType_OTHER],
                   totalCount = 1\<rparr>"
       and m = "memberOf OrganizationUserRoles_MEMBER OrganizationType_OTHER" and ms = "[]"
       and project = "\<lparr>project_getType = ProjectType_OTHER\<rparr>"
       and pm = "\<lparr>data = [], totalCount = 0\<rparr>"]
  by (simp add: example_defs truthy_def)

text \<open>
  The claim as stated fails in the environment guard. With no required project role, one
  organization membership and the project found, a caller with one membership of a
  restricted project, on a handler with the gate set, fails the project stage, which a
  caller with no membership passes: the count decides. The pipeline denies the first
  caller, on the request object of the framework and on one that serialises alike.
\<close>

theorem project_membership_count_consulted_counterexample:
  "projectAccessRole (exampleHandler\<lparr>projectAccessRole := None,
                                      DisableFeatureForSalesforceType := Some True\<rparr>) = None
   \<and> fst (EG_validateProject_try
           (exampleDeps\<lparr>findProjectById :=
                           \<lambda>p. Inr \<lparr>project_getType = ProjectType_SALESFORCE_ONLY\<rparr>,
                        findAllProjectMembers := projectMembersOf [MEMBER]\<rparr>)
           (exampleHandler\<lparr>projectAccessRole := None,
                           DisableFeatureForSalesforceType := Some True\<rparr>)
           ''a3d9e2b4-7c61-4f08-8e15-9b0d2c3e4f52'' ''user-1''
           \<lparr>data = [memberOf OrganizationUserRoles_MEMBER OrganizationType_OTHER],
             totalCount = 1\<rparr>
           None None (Some True) emptyState)
       = Inl (UnauthorizedException
                (Some ''The user (id)=(user-1) is unauthorized to view this feature''))
   \<and> fst (EG_validateProject_try
           (exampleDeps\<lparr>findProjectById :=
                           \<lambda>p. Inr \<lparr>project_getType = ProjectType_SALESFORCE_ONLY\<rparr>,
                        findAllProjectMembers := projectMembersOf []\<rparr>)
           (exampleHandler\<lparr>projectAccessRole := None,
                           DisableFeatureForSalesforceType := Some True\<rparr>)
           ''a3d9e2b4-7c61-4f08-8e15-9b0d2c3e4f52'' ''user-1''
           \<lparr>data = [memberOf OrganizationUserRoles_MEMBER OrganizationType_OTHER],
             totalCount = 1\<rparr>
           None None (Some True) emptyState)
       = Inr ()
   \<and> fst (EG_canActivate
           (exampleDeps\<lparr>findProjectById :=
                           \<lambda>p. Inr \<lparr>project_getType = ProjectType_SALESFORCE_ONLY\<rparr>,
                        findAllProjectMembers := projectMembersOf [MEMBER]\<rparr>)
           (exampleHandler\<lparr>projectAccessRole := None,
                           DisableFeatureForSalesforceType := Some True\<rparr>)
           exampleRequest emptyState)
       = Inl (GuardValidationFailedException None)
   \<and> fst (EG_canActivate
           (exampleDeps\<lparr>findProjectById :=
                           \<lambda>p. Inr \<lparr>project_getType = ProjectType_SALESFORCE_ONLY\<rparr>,
                        findAllProjectMembers := projectMembersOf [MEMBER]\<rparr>)
           (exampleHandler\<lparr>projectAccessRole := None,
                           DisableFeatureForSalesforceType := Some True\<rparr>)
           (exampleRequest\<lparr>cyclic := False\<rparr>) emptyState)
       = Inl (GuardValidationFailedException None)"
  by (simp add: guard_defs example_defs)

end
